theory Spec2Isabelle
  imports Main
begin

section \<open>Shared vocabulary\<close>

text \<open>
  \<open>BT::NodeStatus\<close> of BehaviorTree.CPP (the release that has \<open>BT::NodeConfig\<close>). The
  constructors carry the prefix \<open>BT_\<close> because the message constants below use the same
  words.
\<close>

datatype NodeStatus = BT_IDLE | BT_RUNNING | BT_SUCCESS | BT_FAILURE | BT_SKIPPED

text \<open>
  Modelled from the spec: the message declarations of \<open>bf_msgs\<close> (MissionCommand,
  MissionStatus, Mission) and the header constants \<open>RUNNING\<close>, \<open>SUCCESS\<close>, \<open>FAILURE\<close> of the
  delegator are not among the sources. The status values are the four the spec gives a
  Status envelope (IDLE, RUNNING, SUCCESS, FAILURE); the message kinds are the three
  constants the worker's code names (\<open>Mission::COMMAND\<close>, \<open>Mission::REQUEST\<close>,
  \<open>Mission::STATUS\<close>).
\<close>

datatype status_code = IDLE | RUNNING | SUCCESS | FAILURE

datatype msg_type = COMMAND | REQUEST | STATUS

section \<open>The delegator: \<open>DelegateActionNodeAny.cpp\<close>\<close>

text \<open>
  Modelled from the spec: \<open>bf_msgs::msg::MissionCommand\<close>, with the three fields the
  delegator writes. A default-constructed message has empty strings.
\<close>

record MissionCommand =
  cmd_mission_id :: string
  cmd_robot_id :: string
  cmd_mission_tree :: string

text \<open>
  Modelled from the spec: \<open>bf_msgs::msg::MissionStatus\<close>. The delegator reads \<open>robot_id\<close>
  and \<open>status\<close>; \<open>mission_id\<close> is the correlating field the spec gives every envelope, and
  no line of the delegator reads it.
\<close>

record MissionStatus =
  st_robot_id :: string
  st_mission_id :: string
  st_status :: status_code

text \<open>
  The members of the class; a member \<open>x_\<close> of the source is the field \<open>x'\<close>. A publisher
  or subscription is represented by its topic name. \<open>remote_sub'\<close> does not exist before
  the first poll answer. The fields \<open>delegator_mission_id'\<close> and \<open>delegator_poll_sub'\<close>
  are the members \<open>mission_id_\<close> and \<open>poll_sub_\<close>; the worker has members of the same
  names.
\<close>

record DelegateActionNodeAny =
  remote_id' :: string
  remote_tree' :: string
  delegator_mission_id' :: string
  remote_identified' :: bool
  remote_status' :: "MissionStatus option"
  poll_answ' :: "MissionStatus option"
  mission_pub' :: string
  delegator_poll_sub' :: string
  remote_sub' :: "string option"

text \<open>What a call of the delegator does to the outside: a publication, or the value \<open>tick\<close> returns.\<close>

datatype delegator_event = PublishCommand string MissionCommand | Return NodeStatus

text \<open>
  The constructor. \<open>d0\<close> holds the members as the header initialises them; \<open>fs\<close> is the file
  system (\<open>None\<close>: the file cannot be opened, and the stream stays empty); \<open>in_tree\<close> and
  \<open>in_mission\<close> are the input ports (\<open>None\<close>: \<open>getInput\<close> fails and leaves the variable as
  it was).
\<close>

definition DelegateActionNodeAny_ctor ::
  "DelegateActionNodeAny \<Rightarrow> (string \<Rightarrow> string option) \<Rightarrow> string \<Rightarrow> string option \<Rightarrow> string option
     \<Rightarrow> DelegateActionNodeAny" where
  "DelegateActionNodeAny_ctor d0 fs pkgpath in_tree in_mission =
     (let tree_name = (case in_tree of Some s \<Rightarrow> s | None \<Rightarrow> ''not_set'');
          mid = (case in_mission of Some s \<Rightarrow> s | None \<Rightarrow> delegator_mission_id' d0);
          xml_path = pkgpath @ tree_name;
          contents = (case fs xml_path of Some c \<Rightarrow> c | None \<Rightarrow> [])
      in d0\<lparr>remote_id' := ''not_set'',
            remote_tree' := contents,
            delegator_mission_id' := mid,
            mission_pub' := ''/mission_command'',
            delegator_poll_sub' := ''/mission_poll''\<rparr>)"

definition remote_status_callback ::
  "DelegateActionNodeAny \<Rightarrow> MissionStatus \<Rightarrow> delegator_event list \<times> DelegateActionNodeAny" where
  "remote_status_callback d msg = ([], d\<lparr>remote_status' := Some msg\<rparr>)"

definition DelegateActionNodeAny_mission_poll_callback ::
  "DelegateActionNodeAny \<Rightarrow> MissionStatus \<Rightarrow> delegator_event list \<times> DelegateActionNodeAny" where
  "DelegateActionNodeAny_mission_poll_callback d msg =
     (if \<not> remote_identified' d then
        (let rid = st_robot_id msg;
             topic = ''/'' @ rid @ ''/mission_command'';
             mission_msg = \<lparr>cmd_mission_id = [], cmd_robot_id = rid,
                            cmd_mission_tree = remote_tree' d\<rparr>
         in ([PublishCommand topic mission_msg],
             d\<lparr>poll_answ' := Some msg,
               remote_id' := rid,
               remote_sub' := Some (''/'' @ rid @ ''/mission_status''),
               mission_pub' := topic,
               remote_identified' := True\<rparr>))
      else ([], d))"

text \<open>
  \<open>tick\<close>. The \<open>switch\<close> has no default: a status other than the three cases falls through
  to the final \<open>return BT::NodeStatus::RUNNING\<close>.
\<close>

definition DelegateActionNodeAny_tick ::
  "DelegateActionNodeAny \<Rightarrow> delegator_event list \<times> DelegateActionNodeAny" where
  "DelegateActionNodeAny_tick d =
     (if \<not> remote_identified' d then
        ([PublishCommand (mission_pub' d)
            \<lparr>cmd_mission_id = delegator_mission_id' d, cmd_robot_id = [], cmd_mission_tree = []\<rparr>,
          Return BT_RUNNING], d)
      else
        (case remote_status' d of
           Some st \<Rightarrow>
             (case st_status st of
                RUNNING \<Rightarrow> ([Return BT_RUNNING], d)
              | SUCCESS \<Rightarrow> ([Return BT_SUCCESS], d)
              | FAILURE \<Rightarrow> ([Return BT_FAILURE], d)
              | IDLE \<Rightarrow> ([Return BT_RUNNING], d))
         | None \<Rightarrow> ([Return BT_RUNNING], d)))"

text \<open>
  The delegator is single-threaded: the executor delivers one call at a time. An input is
  one such call; \<open>delegator_run\<close> performs a sequence of them and collects the events.
\<close>

datatype delegator_input = DTick | DPoll MissionStatus | DStatus MissionStatus

fun delegator_step ::
  "DelegateActionNodeAny \<Rightarrow> delegator_input \<Rightarrow> delegator_event list \<times> DelegateActionNodeAny" where
  "delegator_step d DTick = DelegateActionNodeAny_tick d"
| "delegator_step d (DPoll m) = DelegateActionNodeAny_mission_poll_callback d m"
| "delegator_step d (DStatus m) = remote_status_callback d m"

fun delegator_run ::
  "DelegateActionNodeAny \<Rightarrow> delegator_input list \<Rightarrow> delegator_event list \<times> DelegateActionNodeAny" where
  "delegator_run d [] = ([], d)"
| "delegator_run d (i # is) =
     (case delegator_step d i of
        (ev, d') \<Rightarrow> (case delegator_run d' is of (evs, d'') \<Rightarrow> (ev @ evs, d'')))"

fun is_publication :: "delegator_event \<Rightarrow> bool" where
  "is_publication (PublishCommand t m) = True"
| "is_publication (Return s) = False"

section \<open>The worker: \<open>RemoteDelegateActionNode.cpp\<close>\<close>

text \<open>
  Modelled from the spec: \<open>bf_msgs::msg::Mission\<close>, with the fields the worker reads or
  writes. A default-constructed message has empty strings and an empty plugin list.
\<close>

record Mission =
  msg_type :: msg_type
  robot_id :: string
  mission_id :: string
  status :: status_code
  mission_tree :: string
  plugins :: "string list"

text \<open>
  The task-graph engine is an external collaborator, taken as a parameter.
  \<open>registerFromPlugin\<close> tells whether loading a plugin returns (\<open>False\<close>: it throws);
  \<open>createTreeFromText\<close> gets the registered plugins and the tree text (\<open>None\<close>: it throws);
  \<open>executeTick\<close> steps a tree once.
\<close>

record 'tree engine =
  registerFromPlugin :: "string \<Rightarrow> bool"
  createTreeFromText :: "string list \<Rightarrow> string \<Rightarrow> 'tree option"
  executeTick :: "'tree \<Rightarrow> NodeStatus \<times> 'tree"

text \<open>
  The members of the class (\<open>x_\<close> is \<open>x'\<close>). \<open>mission'\<close> is a \<open>UniquePtr\<close>, null before
  the first message is stored. \<open>param_plugins\<close> is the node parameter \<open>plugins\<close>.
\<close>

record 'tree RemoteDelegateActionNode =
  id' :: string
  mission_id' :: string
  working' :: bool
  can_do_it' :: bool
  mission' :: "Mission option"
  tree' :: 'tree
  poll_sub' :: string
  mission_sub' :: string
  poll_pub' :: string
  status_pub' :: string
  param_plugins :: "string list"

text \<open>What a call of the worker does to the outside: a publication, or one step of the engine.\<close>

datatype worker_event = Publish string Mission | ExecuteTick

text \<open>\<open>init\<close> derives the four topics from \<open>id_\<close> and declares the parameter, empty by default.\<close>

definition init :: "'tree RemoteDelegateActionNode \<Rightarrow> 'tree RemoteDelegateActionNode" where
  "init w = w\<lparr>poll_sub' := ''/mission_poll'',
              mission_sub' := ''/'' @ id' w @ ''/mission_command'',
              poll_pub' := ''/mission_poll'',
              status_pub' := ''/'' @ id' w @ ''/mission_status''\<rparr>"

text \<open>The two-argument constructor; \<open>w0\<close> holds the members as the header initialises them.\<close>

definition RemoteDelegateActionNode_ctor ::
  "'tree RemoteDelegateActionNode \<Rightarrow> string \<Rightarrow> string \<Rightarrow> 'tree RemoteDelegateActionNode" where
  "RemoteDelegateActionNode_ctor w0 robot mission =
     init (w0\<lparr>id' := robot, mission_id' := mission\<rparr>)"

definition setID :: "'tree RemoteDelegateActionNode \<Rightarrow> string \<Rightarrow> 'tree RemoteDelegateActionNode" where
  "setID w i = w\<lparr>id' := i\<rparr>"

text \<open>The Status message \<open>control_cycle\<close> and \<open>create_tree\<close> fill in.\<close>

definition status_msg :: "'tree RemoteDelegateActionNode \<Rightarrow> status_code \<Rightarrow> Mission" where
  "status_msg w s =
     \<lparr>msg_type = STATUS, robot_id = id' w, mission_id = [], status = s,
      mission_tree = [], plugins = []\<rparr>"

definition control_cycle ::
  "'tree engine \<Rightarrow> 'tree RemoteDelegateActionNode
     \<Rightarrow> worker_event list \<times> 'tree RemoteDelegateActionNode" where
  "control_cycle E w =
     (if working' w then
        (case executeTick E (tree' w) of
           (st, t) \<Rightarrow>
             (let w1 = w\<lparr>tree' := t\<rparr> in
              case st of
                BT_RUNNING \<Rightarrow>
                  ([ExecuteTick, Publish (status_pub' w) (status_msg w RUNNING)], w1)
              | BT_SUCCESS \<Rightarrow>
                  ([ExecuteTick, Publish (status_pub' w) (status_msg w SUCCESS)],
                   w1\<lparr>working' := False\<rparr>)
              | BT_FAILURE \<Rightarrow>
                  ([ExecuteTick, Publish (status_pub' w) (status_msg w FAILURE)],
                   w1\<lparr>working' := False\<rparr>)
              | BT_IDLE \<Rightarrow>
                  ([ExecuteTick, Publish (status_pub' w) (status_msg w RUNNING)], w1)
              | BT_SKIPPED \<Rightarrow>
                  ([ExecuteTick, Publish (status_pub' w) (status_msg w RUNNING)], w1)))
      else if can_do_it' w then ([], w)
      else ([Publish (status_pub' w) (status_msg w FAILURE)], w))"

text \<open>The loop of \<open>create_tree\<close> over the plugins: the first one that throws ends it.\<close>

fun register_plugins :: "'tree engine \<Rightarrow> string list \<Rightarrow> bool" where
  "register_plugins E [] = True"
| "register_plugins E (p # ps) = (if registerFromPlugin E p then register_plugins E ps else False)"

text \<open>The body of the \<open>try\<close> block: \<open>None\<close> when an exception reaches the \<open>catch\<close>.\<close>

definition try_build :: "'tree engine \<Rightarrow> string list \<Rightarrow> string \<Rightarrow> 'tree option" where
  "try_build E ps text = (if register_plugins E ps then createTreeFromText E ps text else None)"

text \<open>The plugin list \<open>create_tree\<close> uses: the mission's, or the node parameter when that is empty.\<close>

definition chosen_plugins :: "'tree RemoteDelegateActionNode \<Rightarrow> Mission \<Rightarrow> string list" where
  "chosen_plugins w m = (if length (plugins m) = 0 then param_plugins w else plugins m)"

text \<open>
  \<open>create_tree\<close> reads the message \<open>mission_\<close> points to. Its only caller has just stored
  the incoming message there, so the message is passed as \<open>m\<close>.
\<close>

definition create_tree ::
  "'tree engine \<Rightarrow> 'tree RemoteDelegateActionNode \<Rightarrow> Mission
     \<Rightarrow> worker_event list \<times> bool \<times> 'tree RemoteDelegateActionNode" where
  "create_tree E w m =
     (case try_build E (chosen_plugins w m) (mission_tree m) of
        Some t \<Rightarrow> ([], True, w\<lparr>tree' := t\<rparr>)
      | None \<Rightarrow> ([Publish (status_pub' w) (status_msg w IDLE)], False, w))"

definition RemoteDelegateActionNode_mission_poll_callback ::
  "'tree RemoteDelegateActionNode \<Rightarrow> Mission
     \<Rightarrow> worker_event list \<times> 'tree RemoteDelegateActionNode" where
  "RemoteDelegateActionNode_mission_poll_callback w msg =
     (if msg_type msg \<noteq> COMMAND then ([], w)
      else if \<not> working' w then
        (let w1 = w\<lparr>can_do_it' := True, mission' := Some msg\<rparr> in
         if length (robot_id msg) > 0 \<and> robot_id msg \<noteq> id' w then ([], w1)
         else if mission_id msg = mission_id' w then
           ([Publish (poll_pub' w)
               \<lparr>msg_type = REQUEST, robot_id = id' w, mission_id = mission_id' w,
                status = IDLE, mission_tree = [], plugins = []\<rparr>], w1)
         else ([], w1))
      else ([], w))"

definition mission_callback ::
  "'tree engine \<Rightarrow> 'tree RemoteDelegateActionNode \<Rightarrow> Mission
     \<Rightarrow> worker_event list \<times> 'tree RemoteDelegateActionNode" where
  "mission_callback E w msg =
     (if msg_type msg \<noteq> COMMAND then ([], w)
      else if \<not> working' w then
        (let w1 = w\<lparr>mission' := Some msg\<rparr> in
         if robot_id msg = id' w then
           (case create_tree E w1 msg of
              (ev, ok, w2) \<Rightarrow> (ev, w2\<lparr>working' := ok, can_do_it' := ok\<rparr>))
         else ([], w1))
      else ([], w))"

text \<open>
  The worker's callbacks and its timer run on one executor thread, one call at a time. An
  input is one such call; \<open>worker_run\<close> performs a sequence of them and collects the events.
\<close>

datatype worker_input = Tick | PollMsg Mission | CommandMsg Mission

fun worker_step ::
  "'tree engine \<Rightarrow> 'tree RemoteDelegateActionNode \<Rightarrow> worker_input
     \<Rightarrow> worker_event list \<times> 'tree RemoteDelegateActionNode" where
  "worker_step E w Tick = control_cycle E w"
| "worker_step E w (PollMsg m) = RemoteDelegateActionNode_mission_poll_callback w m"
| "worker_step E w (CommandMsg m) = mission_callback E w m"

fun worker_run ::
  "'tree engine \<Rightarrow> 'tree RemoteDelegateActionNode \<Rightarrow> worker_input list
     \<Rightarrow> worker_event list \<times> 'tree RemoteDelegateActionNode" where
  "worker_run E w [] = ([], w)"
| "worker_run E w (i # is) =
     (case worker_step E w i of
        (ev, w1) \<Rightarrow> (case worker_run E w1 is of (evs, w2) \<Rightarrow> (ev @ evs, w2)))"

text \<open>
  The message constant of the same name as an engine result, for the three results the
  engine contract names. The message has no constant for the other two results; for them
  the function gives \<open>RUNNING\<close>, the value \<open>status_msg.status\<close> is initialised with.
\<close>

fun status_of :: "NodeStatus \<Rightarrow> status_code" where
  "status_of BT_RUNNING = RUNNING"
| "status_of BT_SUCCESS = SUCCESS"
| "status_of BT_FAILURE = FAILURE"
| "status_of BT_IDLE = RUNNING"
| "status_of BT_SKIPPED = RUNNING"

text \<open>An input that is a Command delivered on the worker's command channel.\<close>

fun is_command_input :: "worker_input \<Rightarrow> bool" where
  "is_command_input (CommandMsg m) = True"
| "is_command_input Tick = False"
| "is_command_input (PollMsg m) = False"

section \<open>Concrete agents for the scenarios\<close>

text \<open>
  A delegator before its constructor has run. The header with the member initialisers is
  not among the sources; \<open>remote_identified_\<close> starts false, the spec's initial state
  AWAITING_CLAIM.
\<close>

definition blank_delegator :: DelegateActionNodeAny where
  "blank_delegator =
     \<lparr>remote_id' = [], remote_tree' = [], delegator_mission_id' = [],
      remote_identified' = False, remote_status' = None, poll_answ' = None,
      mission_pub' = [], delegator_poll_sub' = [], remote_sub' = None\<rparr>"

text \<open>A file system with one tree file, and one with an empty file at the same path.\<close>

definition patrol_fs :: "string \<Rightarrow> string option" where
  "patrol_fs path = (if path = ''/pkg/patrol.xml'' then Some ''<root/>'' else None)"

definition empty_fs :: "string \<Rightarrow> string option" where
  "empty_fs path = (if path = ''/pkg/patrol.xml'' then Some [] else None)"

definition patrol_delegator :: DelegateActionNodeAny where
  "patrol_delegator =
     DelegateActionNodeAny_ctor blank_delegator patrol_fs ''/pkg'' (Some ''/patrol.xml'')
       (Some ''patrol-1'')"

definition empty_tree_delegator :: DelegateActionNodeAny where
  "empty_tree_delegator =
     DelegateActionNodeAny_ctor blank_delegator empty_fs ''/pkg'' (Some ''/patrol.xml'')
       (Some ''patrol-1'')"

definition claim_from :: "string \<Rightarrow> string \<Rightarrow> MissionStatus" where
  "claim_from robot mission =
     \<lparr>st_robot_id = robot, st_mission_id = mission, st_status = IDLE\<rparr>"

definition status_from :: "string \<Rightarrow> status_code \<Rightarrow> MissionStatus" where
  "status_from robot s = \<lparr>st_robot_id = robot, st_mission_id = ''patrol-1'', st_status = s\<rparr>"

text \<open>
  An engine whose trees are counters: a tree runs three steps and succeeds at the fourth.
  It builds a tree from any text but \<open>''broken''\<close>, and loads any plugin but \<open>''missing''\<close>.
\<close>

definition counter_engine :: "nat engine" where
  "counter_engine =
     \<lparr>registerFromPlugin = (\<lambda>p. p \<noteq> ''missing''),
      createTreeFromText = (\<lambda>ps text. if text = ''broken'' then None else Some 0),
      executeTick = (\<lambda>n. (if n < 3 then BT_RUNNING else BT_SUCCESS, Suc n))\<rparr>"

text \<open>
  A worker before its constructor has run: idle and capable, with the engine's initial
  tree and no stored mission.
\<close>

definition blank_worker :: "nat RemoteDelegateActionNode" where
  "blank_worker =
     \<lparr>id' = [], mission_id' = [], working' = False, can_do_it' = True, mission' = None,
      tree' = 0, poll_sub' = [], mission_sub' = [], poll_pub' = [], status_pub' = [],
      param_plugins = []\<rparr>"

definition worker_W1 :: "nat RemoteDelegateActionNode" where
  "worker_W1 = RemoteDelegateActionNode_ctor blank_worker ''W1'' ''patrol-1''"

definition poll_for :: "string \<Rightarrow> Mission" where
  "poll_for mission =
     \<lparr>msg_type = COMMAND, robot_id = [], mission_id = mission, status = IDLE,
      mission_tree = [], plugins = []\<rparr>"

definition command_for :: "string \<Rightarrow> string \<Rightarrow> Mission" where
  "command_for robot text =
     \<lparr>msg_type = COMMAND, robot_id = robot, mission_id = [], status = IDLE,
      mission_tree = text, plugins = []\<rparr>"

text \<open>The delegator of the patrol mission after worker \<open>W1\<close> has answered its poll.\<close>

definition bound_patrol :: DelegateActionNodeAny where
  "bound_patrol =
     snd (DelegateActionNodeAny_mission_poll_callback patrol_delegator
            (claim_from ''W1'' ''patrol-1''))"

text \<open>Worker \<open>W1\<close> in the middle of a mission, about to take the step that succeeds.\<close>

definition executing_W1 :: "nat RemoteDelegateActionNode" where
  "executing_W1 = worker_W1\<lparr>working' := True, tree' := 3\<rparr>"

text \<open>Worker \<open>W1\<close> earlier in the same mission, with steps still to run.\<close>

definition running_W1 :: "nat RemoteDelegateActionNode" where
  "running_W1 = worker_W1\<lparr>working' := True, tree' := 1\<rparr>"

section \<open>Properties of the delegator\<close>

lemmas delegator_defs =
  DelegateActionNodeAny_mission_poll_callback_def DelegateActionNodeAny_tick_def
  remote_status_callback_def

lemma bound_poll_ignored:
  "remote_identified' d \<Longrightarrow> DelegateActionNodeAny_mission_poll_callback d m = ([], d)"
  by (simp add: DelegateActionNodeAny_mission_poll_callback_def)

lemma first_poll_binds:
  "\<not> remote_identified' d \<Longrightarrow>
     remote_identified' (snd (DelegateActionNodeAny_mission_poll_callback d m))"
  by (simp add: DelegateActionNodeAny_mission_poll_callback_def Let_def)

lemma bound_polls_ignored:
  "remote_identified' d \<Longrightarrow> delegator_run d (map DPoll ms) = ([], d)"
  by (induction ms) (simp_all add: bound_poll_ignored)

lemma bound_step_keeps:
  assumes "remote_identified' d" and "delegator_step d i = (ev, d1)"
  shows "remote_identified' d1 \<and> remote_id' d1 = remote_id' d \<and> mission_pub' d1 = mission_pub' d
         \<and> remote_sub' d1 = remote_sub' d \<and> remote_tree' d1 = remote_tree' d
         \<and> list_all (\<lambda>e. \<not> is_publication e) ev"
  using assms
  by (cases i) (auto simp: delegator_defs split: option.splits status_code.splits)

lemma bound_run_keeps:
  assumes "remote_identified' d" and "delegator_run d is = (evs, d1)"
  shows "remote_identified' d1 \<and> remote_id' d1 = remote_id' d \<and> mission_pub' d1 = mission_pub' d
         \<and> remote_sub' d1 = remote_sub' d \<and> remote_tree' d1 = remote_tree' d
         \<and> list_all (\<lambda>e. \<not> is_publication e) evs"
  using assms
proof (induction "is" arbitrary: d evs d1)
  case Nil
  then show ?case by simp
next
  case (Cons i rest)
  obtain ev da where st: "delegator_step d i = (ev, da)" by (cases "delegator_step d i")
  obtain evr db where rn: "delegator_run da rest = (evr, db)" by (cases "delegator_run da rest")
  from Cons.prems(2) st rn have eq: "evs = ev @ evr" "d1 = db" by simp_all
  from bound_step_keeps[OF Cons.prems(1) st] have k1:
    "remote_identified' da" "remote_id' da = remote_id' d" "mission_pub' da = mission_pub' d"
    "remote_sub' da = remote_sub' d" "remote_tree' da = remote_tree' d"
    "list_all (\<lambda>e. \<not> is_publication e) ev" by simp_all
  from Cons.IH[OF k1(1) rn] k1 eq show ?case by simp
qed

text \<open>
  Claim C1. A delegator that is still awaiting a claim receives a non-empty sequence of
  poll answers and nothing else. The whole run publishes exactly one Command: it goes to
  the command topic of the sender of the first answer, names that sender as \<open>robot_id\<close> and
  carries the mission tree. Every later answer, delivered to the state the first one left,
  publishes nothing and returns that state unchanged.
\<close>
theorem first_claim_wins:
  assumes "\<not> remote_identified' d"
  shows "delegator_run d (map DPoll (m # ms)) =
           ([PublishCommand (''/'' @ st_robot_id m @ ''/mission_command'')
               \<lparr>cmd_mission_id = [], cmd_robot_id = st_robot_id m,
                cmd_mission_tree = remote_tree' d\<rparr>],
            snd (DelegateActionNodeAny_mission_poll_callback d m))
         \<and> remote_id' (snd (DelegateActionNodeAny_mission_poll_callback d m)) = st_robot_id m
         \<and> (\<forall>m' \<in> set ms.
               DelegateActionNodeAny_mission_poll_callback
                 (snd (DelegateActionNodeAny_mission_poll_callback d m)) m'
               = ([], snd (DelegateActionNodeAny_mission_poll_callback d m)))"
proof -
  let ?d1 = "snd (DelegateActionNodeAny_mission_poll_callback d m)"
  have b: "remote_identified' ?d1" using assms by (rule first_poll_binds)
  have ev: "fst (DelegateActionNodeAny_mission_poll_callback d m) =
              [PublishCommand (''/'' @ st_robot_id m @ ''/mission_command'')
                 \<lparr>cmd_mission_id = [], cmd_robot_id = st_robot_id m,
                  cmd_mission_tree = remote_tree' d\<rparr>]"
    using assms by (simp add: DelegateActionNodeAny_mission_poll_callback_def Let_def)
  have rid: "remote_id' ?d1 = st_robot_id m"
    using assms by (simp add: DelegateActionNodeAny_mission_poll_callback_def Let_def)
  have rest: "delegator_run ?d1 (map DPoll ms) = ([], ?d1)"
    using b by (rule bound_polls_ignored)
  have run: "delegator_run d (map DPoll (m # ms)) =
               (fst (DelegateActionNodeAny_mission_poll_callback d m), ?d1)"
    using rest by (simp add: split_beta)
  show ?thesis using run ev rid b by (simp add: bound_poll_ignored)
qed

theorem first_claim_wins_witness:
  "\<not> remote_identified' patrol_delegator
   \<and> delegator_run patrol_delegator
       [DPoll (claim_from ''W1'' ''patrol-1''), DPoll (claim_from ''W2'' ''patrol-1''),
        DPoll (claim_from ''W3'' ''patrol-1'')] =
       ([PublishCommand ''/W1/mission_command''
           \<lparr>cmd_mission_id = [], cmd_robot_id = ''W1'', cmd_mission_tree = ''<root/>''\<rparr>],
        snd (DelegateActionNodeAny_mission_poll_callback patrol_delegator
               (claim_from ''W1'' ''patrol-1'')))
   \<and> remote_id' (snd (DelegateActionNodeAny_mission_poll_callback patrol_delegator
               (claim_from ''W1'' ''patrol-1''))) = ''W1''"
proof -
  have h: "\<not> remote_identified' patrol_delegator"
    by (simp add: patrol_delegator_def DelegateActionNodeAny_ctor_def blank_delegator_def)
  have rt: "remote_tree' patrol_delegator = ''<root/>''"
    by (simp add: patrol_delegator_def DelegateActionNodeAny_ctor_def blank_delegator_def
        patrol_fs_def)
  show ?thesis
    using h rt
      first_claim_wins [OF h, of "claim_from ''W1'' ''patrol-1''"
        "[claim_from ''W2'' ''patrol-1'', claim_from ''W3'' ''patrol-1'']"]
    by (simp add: claim_from_def)
qed

lemma patrol_delegator_simp:
  "patrol_delegator =
     \<lparr>remote_id' = ''not_set'', remote_tree' = ''<root/>'',
      delegator_mission_id' = ''patrol-1'', remote_identified' = False,
      remote_status' = None, poll_answ' = None, mission_pub' = ''/mission_command'',
      delegator_poll_sub' = ''/mission_poll'', remote_sub' = None\<rparr>"
  by (simp add: patrol_delegator_def DelegateActionNodeAny_ctor_def blank_delegator_def
      patrol_fs_def)

lemma empty_tree_delegator_simp:
  "empty_tree_delegator =
     \<lparr>remote_id' = ''not_set'', remote_tree' = [],
      delegator_mission_id' = ''patrol-1'', remote_identified' = False,
      remote_status' = None, poll_answ' = None, mission_pub' = ''/mission_command'',
      delegator_poll_sub' = ''/mission_poll'', remote_sub' = None\<rparr>"
  by (simp add: empty_tree_delegator_def DelegateActionNodeAny_ctor_def blank_delegator_def
      empty_fs_def)

text \<open>
  Claim C2 says that a Claim carrying another \<open>mission_id\<close> than the pending round's does
  not bind the delegator and triggers no Command. The handler never reads the field: the
  delegator polling for \<open>patrol-1\<close> is bound by an answer for \<open>inspect-1\<close> and sends its
  tree to that sender.
\<close>
theorem claim_of_other_mission_binds:
  "st_mission_id (claim_from ''W2'' ''inspect-1'') \<noteq> delegator_mission_id' patrol_delegator
   \<and> \<not> remote_identified' patrol_delegator
   \<and> fst (DelegateActionNodeAny_mission_poll_callback patrol_delegator
            (claim_from ''W2'' ''inspect-1'')) =
       [PublishCommand ''/W2/mission_command''
          \<lparr>cmd_mission_id = [], cmd_robot_id = ''W2'', cmd_mission_tree = ''<root/>''\<rparr>]
   \<and> remote_identified' (snd (DelegateActionNodeAny_mission_poll_callback patrol_delegator
            (claim_from ''W2'' ''inspect-1'')))
   \<and> remote_id' (snd (DelegateActionNodeAny_mission_poll_callback patrol_delegator
            (claim_from ''W2'' ''inspect-1''))) = ''W2''"
  by (simp add: patrol_delegator_simp claim_from_def
      DelegateActionNodeAny_mission_poll_callback_def Let_def)

text \<open>
  Claim C2, amended. The handler accepts a poll answer exactly when the delegator is still
  awaiting one: a bound delegator returns unchanged and publishes nothing; an unbound one
  publishes the Command to the answer's sender and binds to it, whatever \<open>mission_id\<close> the
  answer carries.
\<close>
theorem claim_accepted_iff_awaiting:
  "(fst (DelegateActionNodeAny_mission_poll_callback d msg) \<noteq> [] \<longleftrightarrow> \<not> remote_identified' d)
   \<and> (remote_identified' d \<longrightarrow> DelegateActionNodeAny_mission_poll_callback d msg = ([], d))
   \<and> (\<not> remote_identified' d \<longrightarrow>
        fst (DelegateActionNodeAny_mission_poll_callback d (msg\<lparr>st_mission_id := other\<rparr>)) =
          [PublishCommand (''/'' @ st_robot_id msg @ ''/mission_command'')
             \<lparr>cmd_mission_id = [], cmd_robot_id = st_robot_id msg,
              cmd_mission_tree = remote_tree' d\<rparr>]
        \<and> remote_identified'
            (snd (DelegateActionNodeAny_mission_poll_callback d (msg\<lparr>st_mission_id := other\<rparr>)))
        \<and> remote_id'
            (snd (DelegateActionNodeAny_mission_poll_callback d (msg\<lparr>st_mission_id := other\<rparr>)))
           = st_robot_id msg)"
  by (simp add: DelegateActionNodeAny_mission_poll_callback_def Let_def)

theorem claim_accepted_iff_awaiting_witness:
  "\<not> remote_identified' patrol_delegator
   \<and> fst (DelegateActionNodeAny_mission_poll_callback patrol_delegator
            (claim_from ''W2'' ''inspect-1'')) =
       [PublishCommand ''/W2/mission_command''
          \<lparr>cmd_mission_id = [], cmd_robot_id = ''W2'', cmd_mission_tree = ''<root/>''\<rparr>]
   \<and> remote_identified'
        (snd (DelegateActionNodeAny_mission_poll_callback patrol_delegator
           (claim_from ''W1'' ''patrol-1'')))
   \<and> DelegateActionNodeAny_mission_poll_callback
        (snd (DelegateActionNodeAny_mission_poll_callback patrol_delegator
           (claim_from ''W1'' ''patrol-1'')))
        (claim_from ''W2'' ''patrol-1'')
      = ([], snd (DelegateActionNodeAny_mission_poll_callback patrol_delegator
           (claim_from ''W1'' ''patrol-1'')))"
proof -
  have h: "\<not> remote_identified' patrol_delegator" by (simp add: patrol_delegator_simp)
  have rt: "remote_tree' patrol_delegator = ''<root/>''" by (simp add: patrol_delegator_simp)
  note a = claim_accepted_iff_awaiting
    [of patrol_delegator "claim_from ''W2'' ''patrol-1''" "''inspect-1''"]
  note b = claim_accepted_iff_awaiting
    [of patrol_delegator "claim_from ''W1'' ''patrol-1''" "''patrol-1''"]
  note c = claim_accepted_iff_awaiting
    [of "snd (DelegateActionNodeAny_mission_poll_callback patrol_delegator
           (claim_from ''W1'' ''patrol-1''))" "claim_from ''W2'' ''patrol-1''" "[]"]
  have b': "remote_identified'
        (snd (DelegateActionNodeAny_mission_poll_callback patrol_delegator
           (claim_from ''W1'' ''patrol-1'')))"
    using b h by (simp add: claim_from_def)
  show ?thesis using a b' c h rt by (simp add: claim_from_def)
qed

text \<open>
  Claim C4 says that without a Claim the round is abandoned with \<open>NoRespondentError\<close>
  and that \<open>tick\<close> does not go on polling. Five ticks with no answer publish five Polls,
  each returns \<open>RUNNING\<close>, and the delegator ends in the state it started in, so nothing
  counts towards a timeout.
\<close>
theorem poll_repeats_without_claim:
  "\<not> remote_identified' patrol_delegator
   \<and> delegator_run patrol_delegator [DTick, DTick, DTick, DTick, DTick] =
       ([PublishCommand ''/mission_command''
           \<lparr>cmd_mission_id = ''patrol-1'', cmd_robot_id = [], cmd_mission_tree = []\<rparr>,
         Return BT_RUNNING,
         PublishCommand ''/mission_command''
           \<lparr>cmd_mission_id = ''patrol-1'', cmd_robot_id = [], cmd_mission_tree = []\<rparr>,
         Return BT_RUNNING,
         PublishCommand ''/mission_command''
           \<lparr>cmd_mission_id = ''patrol-1'', cmd_robot_id = [], cmd_mission_tree = []\<rparr>,
         Return BT_RUNNING,
         PublishCommand ''/mission_command''
           \<lparr>cmd_mission_id = ''patrol-1'', cmd_robot_id = [], cmd_mission_tree = []\<rparr>,
         Return BT_RUNNING,
         PublishCommand ''/mission_command''
           \<lparr>cmd_mission_id = ''patrol-1'', cmd_robot_id = [], cmd_mission_tree = []\<rparr>,
         Return BT_RUNNING],
        patrol_delegator)"
  by (simp add: patrol_delegator_simp DelegateActionNodeAny_tick_def)

text \<open>
  Claim C4, amended. While no poll answer has arrived, every \<open>tick\<close> publishes one Poll
  (the \<open>mission_id\<close> only) on the delegator's publisher, returns \<open>RUNNING\<close> and leaves the
  state unchanged, for any number of ticks.
\<close>
theorem unbound_tick_always_polls:
  assumes "\<not> remote_identified' d"
  shows "delegator_run d (replicate n DTick) =
           (concat (replicate n
              [PublishCommand (mission_pub' d)
                 \<lparr>cmd_mission_id = delegator_mission_id' d, cmd_robot_id = [],
                  cmd_mission_tree = []\<rparr>,
               Return BT_RUNNING]), d)"
  using assms by (induction n) (simp_all add: DelegateActionNodeAny_tick_def)

theorem unbound_tick_always_polls_witness:
  "\<not> remote_identified' patrol_delegator
   \<and> delegator_run patrol_delegator (replicate 7 DTick) =
       (concat (replicate 7
          [PublishCommand ''/mission_command''
             \<lparr>cmd_mission_id = ''patrol-1'', cmd_robot_id = [], cmd_mission_tree = []\<rparr>,
           Return BT_RUNNING]), patrol_delegator)"
proof -
  have h: "\<not> remote_identified' patrol_delegator" by (simp add: patrol_delegator_simp)
  have m: "mission_pub' patrol_delegator = ''/mission_command''"
    "delegator_mission_id' patrol_delegator = ''patrol-1''"
    by (simp_all add: patrol_delegator_simp)
  show ?thesis using h unbound_tick_always_polls [OF h, of 7] by (simp only: m simp_thms)
qed

text \<open>
  Claim C5 says that a mission with an empty tree is rejected before any Poll and that an
  empty tree is never sent. A delegator constructed over an empty tree file polls at its
  first \<open>tick\<close> and sends the empty tree to the first worker that answers.
\<close>
theorem empty_tree_is_polled_and_sent:
  "remote_tree' empty_tree_delegator = []
   \<and> delegator_run empty_tree_delegator [DTick, DPoll (claim_from ''W1'' ''patrol-1'')] =
       ([PublishCommand ''/mission_command''
           \<lparr>cmd_mission_id = ''patrol-1'', cmd_robot_id = [], cmd_mission_tree = []\<rparr>,
         Return BT_RUNNING,
         PublishCommand ''/W1/mission_command''
           \<lparr>cmd_mission_id = [], cmd_robot_id = ''W1'', cmd_mission_tree = []\<rparr>],
        snd (DelegateActionNodeAny_mission_poll_callback empty_tree_delegator
               (claim_from ''W1'' ''patrol-1'')))"
  by (simp add: empty_tree_delegator_simp claim_from_def DelegateActionNodeAny_tick_def
      DelegateActionNodeAny_mission_poll_callback_def Let_def)

text \<open>
  Claim C5, amended. When the tree file is empty or cannot be opened, the constructor
  still returns a delegator, with an empty \<open>remote_tree_\<close>; its \<open>tick\<close> publishes the Poll
  and returns \<open>RUNNING\<close>, and the first poll answer is sent a Command whose \<open>mission_tree\<close>
  is empty. (\<open>hdr\<close> is the delegator as the header initialises it, not yet bound.)
\<close>
theorem empty_tree_not_rejected:
  assumes "fs (pkgpath @ (case in_tree of Some s \<Rightarrow> s | None \<Rightarrow> ''not_set'')) = None
         \<or> fs (pkgpath @ (case in_tree of Some s \<Rightarrow> s | None \<Rightarrow> ''not_set'')) = Some []"
    and "\<not> remote_identified' hdr"
  shows "remote_tree' (DelegateActionNodeAny_ctor hdr fs pkgpath in_tree in_mission) = []
       \<and> DelegateActionNodeAny_tick (DelegateActionNodeAny_ctor hdr fs pkgpath in_tree in_mission) =
           ([PublishCommand ''/mission_command''
               \<lparr>cmd_mission_id =
                  delegator_mission_id' (DelegateActionNodeAny_ctor hdr fs pkgpath in_tree in_mission),
                cmd_robot_id = [], cmd_mission_tree = []\<rparr>,
             Return BT_RUNNING],
            DelegateActionNodeAny_ctor hdr fs pkgpath in_tree in_mission)
       \<and> fst (DelegateActionNodeAny_mission_poll_callback
                (DelegateActionNodeAny_ctor hdr fs pkgpath in_tree in_mission) m) =
           [PublishCommand (''/'' @ st_robot_id m @ ''/mission_command'')
              \<lparr>cmd_mission_id = [], cmd_robot_id = st_robot_id m, cmd_mission_tree = []\<rparr>]"
  using assms
  by (auto simp: DelegateActionNodeAny_ctor_def DelegateActionNodeAny_tick_def
      DelegateActionNodeAny_mission_poll_callback_def Let_def)

theorem empty_tree_not_rejected_witness:
  "(empty_fs (''/pkg'' @ ''/patrol.xml'') = None \<or> empty_fs (''/pkg'' @ ''/patrol.xml'') = Some [])
   \<and> \<not> remote_identified' blank_delegator
   \<and> remote_tree' empty_tree_delegator = []
   \<and> fst (DelegateActionNodeAny_tick empty_tree_delegator) =
       [PublishCommand ''/mission_command''
          \<lparr>cmd_mission_id = ''patrol-1'', cmd_robot_id = [], cmd_mission_tree = []\<rparr>,
        Return BT_RUNNING]
   \<and> fst (DelegateActionNodeAny_mission_poll_callback empty_tree_delegator
            (claim_from ''W1'' ''patrol-1'')) =
       [PublishCommand ''/W1/mission_command''
          \<lparr>cmd_mission_id = [], cmd_robot_id = ''W1'', cmd_mission_tree = []\<rparr>]"
proof -
  have h1: "empty_fs (''/pkg'' @ ''/patrol.xml'') = None
            \<or> empty_fs (''/pkg'' @ ''/patrol.xml'') = Some []"
    by (simp add: empty_fs_def)
  have h2: "\<not> remote_identified' blank_delegator" by (simp add: blank_delegator_def)
  have mid: "delegator_mission_id' empty_tree_delegator = ''patrol-1''"
    by (simp add: empty_tree_delegator_simp)
  show ?thesis
    using h1 h2 mid
      empty_tree_not_rejected [where fs = empty_fs and pkgpath = "''/pkg''"
        and in_tree = "Some ''/patrol.xml''" and hdr = blank_delegator
        and in_mission = "Some ''patrol-1''" and m = "claim_from ''W1'' ''patrol-1''"]
    by (simp add: empty_tree_delegator_def claim_from_def)
qed

text \<open>
  Claim C9. From a bound delegator, after any sequence of ticks, poll answers and status
  messages: the delegator is still bound, to the same worker and on the same topics;
  nothing was published (so no Poll and no second Command); and one more message on the
  poll channel returns the state unchanged. Status messages reporting \<open>SUCCESS\<close> or
  \<open>FAILURE\<close> are among the inputs, so the binding outlives a terminal result.
\<close>
theorem binding_is_permanent:
  assumes "remote_identified' d"
  shows "remote_identified' (snd (delegator_run d inputs))
       \<and> remote_id' (snd (delegator_run d inputs)) = remote_id' d
       \<and> mission_pub' (snd (delegator_run d inputs)) = mission_pub' d
       \<and> remote_sub' (snd (delegator_run d inputs)) = remote_sub' d
       \<and> list_all (\<lambda>e. \<not> is_publication e) (fst (delegator_run d inputs))
       \<and> DelegateActionNodeAny_mission_poll_callback (snd (delegator_run d inputs)) m
           = ([], snd (delegator_run d inputs))"
proof -
  obtain evs d1 where r: "delegator_run d inputs = (evs, d1)"
    by (cases "delegator_run d inputs")
  from bound_run_keeps[OF assms r] bound_poll_ignored[of d1 m] r show ?thesis by simp
qed


theorem binding_is_permanent_witness:
  "remote_identified' bound_patrol
   \<and> remote_id' bound_patrol = ''W1''
   \<and> fst (delegator_run bound_patrol
       [DTick, DStatus (status_from ''W1'' SUCCESS), DTick,
        DPoll (claim_from ''W2'' ''patrol-1''), DTick]) =
       [Return BT_RUNNING, Return BT_SUCCESS, Return BT_SUCCESS]
   \<and> remote_id' (snd (delegator_run bound_patrol
       [DTick, DStatus (status_from ''W1'' SUCCESS), DTick,
        DPoll (claim_from ''W2'' ''patrol-1''), DTick])) = ''W1''
   \<and> remote_identified' (snd (delegator_run bound_patrol
       [DTick, DStatus (status_from ''W1'' SUCCESS), DTick,
        DPoll (claim_from ''W2'' ''patrol-1''), DTick]))"
proof -
  have h: "remote_identified' bound_patrol"
    by (simp add: bound_patrol_def patrol_delegator_simp claim_from_def
        DelegateActionNodeAny_mission_poll_callback_def Let_def)
  have r: "remote_id' bound_patrol = ''W1''"
    by (simp add: bound_patrol_def patrol_delegator_simp claim_from_def
        DelegateActionNodeAny_mission_poll_callback_def Let_def)
  have e: "fst (delegator_run bound_patrol
       [DTick, DStatus (status_from ''W1'' SUCCESS), DTick,
        DPoll (claim_from ''W2'' ''patrol-1''), DTick]) =
       [Return BT_RUNNING, Return BT_SUCCESS, Return BT_SUCCESS]"
    by (simp add: bound_patrol_def patrol_delegator_simp claim_from_def status_from_def
        DelegateActionNodeAny_mission_poll_callback_def DelegateActionNodeAny_tick_def
        remote_status_callback_def Let_def)
  show ?thesis
    using h r e
      binding_is_permanent [OF h, of "[DTick, DStatus (status_from ''W1'' SUCCESS), DTick,
        DPoll (claim_from ''W2'' ''patrol-1''), DTick]" "claim_from ''W3'' ''patrol-1''"]
    by simp
qed


section \<open>Properties of the worker\<close>

lemma worker_W1_simp:
  "worker_W1 =
     \<lparr>id' = ''W1'', mission_id' = ''patrol-1'', working' = False, can_do_it' = True,
      mission' = None, tree' = 0, poll_sub' = ''/mission_poll'',
      mission_sub' = ''/W1/mission_command'', poll_pub' = ''/mission_poll'',
      status_pub' = ''/W1/mission_status'', param_plugins = []\<rparr>"
  by (simp add: worker_W1_def RemoteDelegateActionNode_ctor_def init_def blank_worker_def)

lemma idle_step_no_tick:
  assumes "\<not> working' w" and "\<not> is_command_input i"
  shows "ExecuteTick \<notin> set (fst (worker_step E w i)) \<and> \<not> working' (snd (worker_step E w i))"
  using assms
  by (cases i)
     (auto simp: control_cycle_def RemoteDelegateActionNode_mission_poll_callback_def Let_def)

lemma idle_run_no_tick:
  assumes "\<not> working' w" and "list_all (\<lambda>i. \<not> is_command_input i) is"
  shows "ExecuteTick \<notin> set (fst (worker_run E w is)) \<and> \<not> working' (snd (worker_run E w is))"
  using assms
proof (induction "is" arbitrary: w)
  case Nil
  then show ?case by simp
next
  case (Cons i rest)
  from Cons.prems have ni: "\<not> is_command_input i"
    and nr: "list_all (\<lambda>i. \<not> is_command_input i) rest" by simp_all
  from idle_step_no_tick[OF Cons.prems(1) ni, of E]
  have s: "ExecuteTick \<notin> set (fst (worker_step E w i))"
    "\<not> working' (snd (worker_step E w i))" by simp_all
  from Cons.IH[OF s(2) nr] s(1) show ?case by (simp add: split_beta)
qed

lemma busy_worker_never_claims:
  "working' w \<Longrightarrow> fst (RemoteDelegateActionNode_mission_poll_callback w msg) = []"
  by (simp add: RemoteDelegateActionNode_mission_poll_callback_def)

lemma other_tag_never_claims:
  "mission_id msg \<noteq> mission_id' w \<Longrightarrow>
     fst (RemoteDelegateActionNode_mission_poll_callback w msg) = []"
  by (simp add: RemoteDelegateActionNode_mission_poll_callback_def Let_def)

text \<open>
  Claim C6. Whenever the worker's poll handler publishes anything, the envelope's
  \<open>mission_id\<close> equals the worker's own \<open>mission_id_\<close>, the worker is not working, and the
  publication is the single Claim (a \<open>REQUEST\<close> with the worker's id and tag) on the poll
  topic. So a busy worker publishes no Claim, and neither does one whose tag differs.
\<close>

theorem claim_only_when_eligible:
  assumes "fst (RemoteDelegateActionNode_mission_poll_callback w msg) \<noteq> []"
  shows "mission_id msg = mission_id' w \<and> \<not> working' w
       \<and> fst (RemoteDelegateActionNode_mission_poll_callback w msg) =
           [Publish (poll_pub' w)
              \<lparr>msg_type = REQUEST, robot_id = id' w, mission_id = mission_id' w,
               status = IDLE, mission_tree = [], plugins = []\<rparr>]"
  using assms
  by (auto simp: RemoteDelegateActionNode_mission_poll_callback_def Let_def split: if_splits)

theorem claim_only_when_eligible_witness:
  "fst (RemoteDelegateActionNode_mission_poll_callback worker_W1 (poll_for ''patrol-1'')) \<noteq> []
   \<and> mission_id (poll_for ''patrol-1'') = mission_id' worker_W1 \<and> \<not> working' worker_W1
   \<and> fst (RemoteDelegateActionNode_mission_poll_callback worker_W1 (poll_for ''patrol-1'')) =
       [Publish ''/mission_poll''
          \<lparr>msg_type = REQUEST, robot_id = ''W1'', mission_id = ''patrol-1'',
           status = IDLE, mission_tree = [], plugins = []\<rparr>]"
proof -
  have h: "fst (RemoteDelegateActionNode_mission_poll_callback worker_W1 (poll_for ''patrol-1''))
             \<noteq> []"
    by (simp add: worker_W1_simp poll_for_def RemoteDelegateActionNode_mission_poll_callback_def
        Let_def)
  have f: "poll_pub' worker_W1 = ''/mission_poll''" "id' worker_W1 = ''W1''"
    "mission_id' worker_W1 = ''patrol-1''"
    by (simp_all add: worker_W1_simp)
  show ?thesis using h claim_only_when_eligible [OF h] by (simp only: f simp_thms)
qed

text \<open>
  Claim C7. A \<open>control_cycle\<close> of a working worker whose engine step returns \<open>RUNNING\<close>,
  \<open>SUCCESS\<close> or \<open>FAILURE\<close> steps the engine once and publishes one Status on the status
  publisher: a \<open>STATUS\<close> message with the worker's id whose status is the constant of the
  same name as the result. The worker keeps working exactly when the result is \<open>RUNNING\<close>;
  after \<open>SUCCESS\<close> or \<open>FAILURE\<close> no sequence of ticks and poll messages steps the engine
  again (only a new Command could).
\<close>

theorem tick_steps_once_and_reports:
  assumes "working' w" and "executeTick E (tree' w) = (r, t)"
    and "r \<in> {BT_RUNNING, BT_SUCCESS, BT_FAILURE}"
  shows "fst (control_cycle E w) =
           [ExecuteTick,
            Publish (status_pub' w)
              \<lparr>msg_type = STATUS, robot_id = id' w, mission_id = [], status = status_of r,
               mission_tree = [], plugins = []\<rparr>]
       \<and> snd (control_cycle E w) = w\<lparr>tree' := t, working' := (r = BT_RUNNING)\<rparr>
       \<and> (r \<noteq> BT_RUNNING \<longrightarrow> list_all (\<lambda>i. \<not> is_command_input i) inputs \<longrightarrow>
            ExecuteTick \<notin> set (fst (worker_run E (snd (control_cycle E w)) inputs)))"
proof -
  have ev: "fst (control_cycle E w) =
           [ExecuteTick,
            Publish (status_pub' w)
              \<lparr>msg_type = STATUS, robot_id = id' w, mission_id = [], status = status_of r,
               mission_tree = [], plugins = []\<rparr>]"
    using assms by (auto simp: control_cycle_def status_msg_def)
  have st: "snd (control_cycle E w) = w\<lparr>tree' := t, working' := (r = BT_RUNNING)\<rparr>"
    using assms by (auto simp: control_cycle_def)
  have "ExecuteTick \<notin> set (fst (worker_run E (snd (control_cycle E w)) inputs))"
    if "r \<noteq> BT_RUNNING" and "list_all (\<lambda>i. \<not> is_command_input i) inputs"
  proof -
    from st that(1) have "\<not> working' (snd (control_cycle E w))" by simp
    from idle_run_no_tick[OF this that(2)] show ?thesis by simp
  qed
  with ev st show ?thesis by blast
qed

theorem tick_steps_once_and_reports_witness:
  "working' executing_W1
   \<and> executeTick counter_engine (tree' executing_W1) = (BT_SUCCESS, 4)
   \<and> BT_SUCCESS \<in> {BT_RUNNING, BT_SUCCESS, BT_FAILURE}
   \<and> fst (control_cycle counter_engine executing_W1) =
       [ExecuteTick,
        Publish ''/W1/mission_status''
          \<lparr>msg_type = STATUS, robot_id = ''W1'', mission_id = [], status = SUCCESS,
           mission_tree = [], plugins = []\<rparr>]
   \<and> \<not> working' (snd (control_cycle counter_engine executing_W1))
   \<and> ExecuteTick \<notin> set (fst (worker_run counter_engine
         (snd (control_cycle counter_engine executing_W1))
         [Tick, PollMsg (poll_for ''patrol-1''), Tick]))
   \<and> working' running_W1
   \<and> executeTick counter_engine (tree' running_W1) = (BT_RUNNING, 2)
   \<and> fst (control_cycle counter_engine running_W1) =
       [ExecuteTick,
        Publish ''/W1/mission_status''
          \<lparr>msg_type = STATUS, robot_id = ''W1'', mission_id = [], status = RUNNING,
           mission_tree = [], plugins = []\<rparr>]
   \<and> working' (snd (control_cycle counter_engine running_W1))"
proof -
  have h1: "working' executing_W1" by (simp add: executing_W1_def)
  have h2: "executeTick counter_engine (tree' executing_W1) = (BT_SUCCESS, 4)"
    by (simp add: executing_W1_def counter_engine_def)
  have h3: "BT_SUCCESS \<in> {BT_RUNNING, BT_SUCCESS, BT_FAILURE}" by simp
  have f: "status_pub' executing_W1 = ''/W1/mission_status''" "id' executing_W1 = ''W1''"
    by (simp_all add: executing_W1_def worker_W1_simp)
  note t = tick_steps_once_and_reports [OF h1 h2 h3,
      of "[Tick, PollMsg (poll_for ''patrol-1''), Tick]"]
  have c1: "fst (control_cycle counter_engine executing_W1) =
       [ExecuteTick,
        Publish ''/W1/mission_status''
          \<lparr>msg_type = STATUS, robot_id = ''W1'', mission_id = [], status = SUCCESS,
           mission_tree = [], plugins = []\<rparr>]"
    using t [THEN conjunct1] f by simp
  have c2: "\<not> working' (snd (control_cycle counter_engine executing_W1))"
    using t [THEN conjunct2, THEN conjunct1] by simp
  have a: "BT_SUCCESS \<noteq> BT_RUNNING" by simp
  have b: "list_all (\<lambda>i. \<not> is_command_input i) [Tick, PollMsg (poll_for ''patrol-1''), Tick]"
    by simp
  have c3: "ExecuteTick \<notin> set (fst (worker_run counter_engine
         (snd (control_cycle counter_engine executing_W1))
         [Tick, PollMsg (poll_for ''patrol-1''), Tick]))"
    using t [THEN conjunct2, THEN conjunct2] a b by blast
  have k1: "working' running_W1" by (simp add: running_W1_def)
  have k2: "executeTick counter_engine (tree' running_W1) = (BT_RUNNING, 2)"
    by (simp add: running_W1_def counter_engine_def)
  have k3: "BT_RUNNING \<in> {BT_RUNNING, BT_SUCCESS, BT_FAILURE}" by simp
  have g: "status_pub' running_W1 = ''/W1/mission_status''" "id' running_W1 = ''W1''"
    by (simp_all add: running_W1_def worker_W1_simp)
  note u = tick_steps_once_and_reports [OF k1 k2 k3, of "[]"]
  have e1: "fst (control_cycle counter_engine running_W1) =
       [ExecuteTick,
        Publish ''/W1/mission_status''
          \<lparr>msg_type = STATUS, robot_id = ''W1'', mission_id = [], status = RUNNING,
           mission_tree = [], plugins = []\<rparr>]"
    using u [THEN conjunct1] g by simp
  have e2: "working' (snd (control_cycle counter_engine running_W1))"
    using u [THEN conjunct2, THEN conjunct1] k1 by simp
  show ?thesis using h1 h2 h3 c1 c2 c3 k1 k2 e1 e2 by blast
qed

text \<open>
  Scenario D of the spec: the engine runs three steps and succeeds at the fourth; two more
  ticks follow. Four steps, four Status messages, nothing after \<open>SUCCESS\<close>.
\<close>

lemma scenario_D:
  "fst (worker_run counter_engine (worker_W1\<lparr>working' := True\<rparr>) [Tick, Tick, Tick, Tick, Tick, Tick]) =
     [ExecuteTick,
      Publish ''/W1/mission_status''
        \<lparr>msg_type = STATUS, robot_id = ''W1'', mission_id = [], status = RUNNING,
         mission_tree = [], plugins = []\<rparr>,
      ExecuteTick,
      Publish ''/W1/mission_status''
        \<lparr>msg_type = STATUS, robot_id = ''W1'', mission_id = [], status = RUNNING,
         mission_tree = [], plugins = []\<rparr>,
      ExecuteTick,
      Publish ''/W1/mission_status''
        \<lparr>msg_type = STATUS, robot_id = ''W1'', mission_id = [], status = RUNNING,
         mission_tree = [], plugins = []\<rparr>,
      ExecuteTick,
      Publish ''/W1/mission_status''
        \<lparr>msg_type = STATUS, robot_id = ''W1'', mission_id = [], status = SUCCESS,
         mission_tree = [], plugins = []\<rparr>]"
  by (simp add: worker_W1_simp control_cycle_def counter_engine_def status_msg_def)

text \<open>
  Claim C10. A \<open>control_cycle\<close> of a worker that is not working and whose \<open>can_do_it_\<close> is
  true publishes nothing and leaves the worker unchanged: the \<open>IDLE\<close> value is assigned to
  the local message only.
\<close>

theorem idle_capable_tick_is_silent:
  assumes "\<not> working' w" and "can_do_it' w"
  shows "control_cycle E w = ([], w)"
  using assms by (simp add: control_cycle_def)

theorem idle_capable_tick_is_silent_witness:
  "\<not> working' worker_W1 \<and> can_do_it' worker_W1
   \<and> control_cycle counter_engine worker_W1 = ([], worker_W1)"
proof -
  have h1: "\<not> working' worker_W1" by (simp add: worker_W1_simp)
  have h2: "can_do_it' worker_W1" by (simp add: worker_W1_simp)
  show ?thesis using h1 h2 idle_capable_tick_is_silent [OF h1 h2, of counter_engine] by simp
qed

lemma ctor_topics:
  "status_pub' (RemoteDelegateActionNode_ctor w0 robot mission) = ''/'' @ robot @ ''/mission_status''
   \<and> mission_sub' (RemoteDelegateActionNode_ctor w0 robot mission) = ''/'' @ robot @ ''/mission_command''
   \<and> poll_pub' (RemoteDelegateActionNode_ctor w0 robot mission) = ''/mission_poll''"
  by (simp add: RemoteDelegateActionNode_ctor_def init_def)

lemma incapable_ticks:
  assumes "\<not> working' w" and "\<not> can_do_it' w"
  shows "worker_run E w (replicate n Tick) =
           (replicate n (Publish (status_pub' w) (status_msg w FAILURE)), w)"
  using assms by (induction n) (simp_all add: control_cycle_def)

text \<open>
  Claim C3 says that a build failure publishes exactly one \<open>FAILURE\<close> Status and nothing
  after it. Worker \<open>W1\<close> accepts a Command whose tree the engine rejects, then two timer
  periods pass: the handler publishes a Status \<open>IDLE\<close>, and each tick a Status \<open>FAILURE\<close>.
\<close>

theorem build_failure_reports_idle_then_failures:
  "try_build counter_engine (chosen_plugins worker_W1 (command_for ''W1'' ''broken'')) ''broken'' = None
   \<and> worker_run counter_engine worker_W1 [CommandMsg (command_for ''W1'' ''broken''), Tick, Tick] =
       ([Publish ''/W1/mission_status''
           \<lparr>msg_type = STATUS, robot_id = ''W1'', mission_id = [], status = IDLE,
            mission_tree = [], plugins = []\<rparr>,
         Publish ''/W1/mission_status''
           \<lparr>msg_type = STATUS, robot_id = ''W1'', mission_id = [], status = FAILURE,
            mission_tree = [], plugins = []\<rparr>,
         Publish ''/W1/mission_status''
           \<lparr>msg_type = STATUS, robot_id = ''W1'', mission_id = [], status = FAILURE,
            mission_tree = [], plugins = []\<rparr>],
        worker_W1\<lparr>mission' := Some (command_for ''W1'' ''broken''), working' := False,
                  can_do_it' := False\<rparr>)"
  by (simp add: worker_W1_simp command_for_def counter_engine_def mission_callback_def
      create_tree_def try_build_def chosen_plugins_def control_cycle_def status_msg_def Let_def)

text \<open>
  Claim C3, amended. When a worker that is not working accepts a Command and the engine
  cannot build the tree, the handler publishes one Status \<open>IDLE\<close> and leaves \<open>working_\<close>
  and \<open>can_do_it_\<close> false; each of the \<open>n\<close> ticks that follow publishes one Status
  \<open>FAILURE\<close>; the engine is never stepped.
\<close>

theorem build_failure_behaviour:
  assumes "msg_type msg = COMMAND" and "\<not> working' w" and "robot_id msg = id' w"
    and "try_build E (chosen_plugins w msg) (mission_tree msg) = None"
  shows "worker_run E w (CommandMsg msg # replicate n Tick) =
           (Publish (status_pub' w) (status_msg w IDLE)
              # replicate n (Publish (status_pub' w) (status_msg w FAILURE)),
            w\<lparr>mission' := Some msg, working' := False, can_do_it' := False\<rparr>)"
proof -
  let ?w1 = "w\<lparr>mission' := Some msg, working' := False, can_do_it' := False\<rparr>"
  have cp: "chosen_plugins (w\<lparr>mission' := Some msg\<rparr>) msg = chosen_plugins w msg"
    by (simp add: chosen_plugins_def)
  have cb: "mission_callback E w msg = ([Publish (status_pub' w) (status_msg w IDLE)], ?w1)"
    using assms
    by (simp add: mission_callback_def create_tree_def cp status_msg_def Let_def)
  have "worker_run E ?w1 (replicate n Tick) =
          (replicate n (Publish (status_pub' ?w1) (status_msg ?w1 FAILURE)), ?w1)"
    by (rule incapable_ticks) simp_all
  then have tk: "worker_run E ?w1 (replicate n Tick) =
          (replicate n (Publish (status_pub' w) (status_msg w FAILURE)), ?w1)"
    by (simp add: status_msg_def)
  show ?thesis using cb tk by simp
qed

theorem build_failure_behaviour_witness:
  "msg_type (command_for ''W1'' ''broken'') = COMMAND \<and> \<not> working' worker_W1
   \<and> robot_id (command_for ''W1'' ''broken'') = id' worker_W1
   \<and> try_build counter_engine (chosen_plugins worker_W1 (command_for ''W1'' ''broken''))
        (mission_tree (command_for ''W1'' ''broken'')) = None
   \<and> worker_run counter_engine worker_W1
        (CommandMsg (command_for ''W1'' ''broken'') # replicate 4 Tick) =
       (Publish ''/W1/mission_status'' (status_msg worker_W1 IDLE)
          # replicate 4 (Publish ''/W1/mission_status'' (status_msg worker_W1 FAILURE)),
        worker_W1\<lparr>mission' := Some (command_for ''W1'' ''broken''), working' := False,
                  can_do_it' := False\<rparr>)"
proof -
  have h1: "msg_type (command_for ''W1'' ''broken'') = COMMAND" by (simp add: command_for_def)
  have h2: "\<not> working' worker_W1" by (simp add: worker_W1_simp)
  have h3: "robot_id (command_for ''W1'' ''broken'') = id' worker_W1"
    by (simp add: command_for_def worker_W1_simp)
  have h4: "try_build counter_engine (chosen_plugins worker_W1 (command_for ''W1'' ''broken''))
        (mission_tree (command_for ''W1'' ''broken'')) = None"
    by (simp add: command_for_def worker_W1_simp try_build_def chosen_plugins_def
        counter_engine_def)
  have f: "status_pub' worker_W1 = ''/W1/mission_status''" by (simp add: worker_W1_simp)
  show ?thesis
    using h1 h2 h3 h4 build_failure_behaviour [OF h1 h2 h3 h4, of 4] by (simp only: f simp_thms)
qed

text \<open>
  Claim C8 says that a Command for another worker changes nothing in the receiver. The
  command handler of idle \<open>W1\<close> stores a Command addressed to \<open>W2\<close> in \<open>mission_\<close>; on the
  poll channel the same message also sets a false \<open>can_do_it_\<close> to true.
\<close>

theorem foreign_command_is_stored:
  "robot_id (command_for ''W2'' ''<root/>'') \<noteq> id' worker_W1
   \<and> mission' worker_W1 = None
   \<and> mission' (snd (mission_callback counter_engine worker_W1 (command_for ''W2'' ''<root/>'')))
       = Some (command_for ''W2'' ''<root/>'')
   \<and> \<not> can_do_it' (worker_W1\<lparr>can_do_it' := False\<rparr>)
   \<and> can_do_it' (snd (RemoteDelegateActionNode_mission_poll_callback
         (worker_W1\<lparr>can_do_it' := False\<rparr>) (command_for ''W2'' ''<root/>'')))"
  by (simp add: worker_W1_simp command_for_def mission_callback_def
      RemoteDelegateActionNode_mission_poll_callback_def Let_def)

text \<open>
  Claim C8, amended. A message whose \<open>robot_id\<close> is not the worker's id publishes nothing
  in the command handler and changes no member but \<open>mission_\<close>, which takes the message
  when it is a \<open>COMMAND\<close> and the worker is not working. On the poll channel such a message
  with a non-empty \<open>robot_id\<close> publishes nothing either, and changes no member but
  \<open>mission_\<close> and \<open>can_do_it_\<close> (set to true), under the same condition.
\<close>

theorem foreign_command_starts_nothing:
  assumes "robot_id msg \<noteq> id' w"
  shows "mission_callback E w msg =
           ([], if msg_type msg = COMMAND \<and> \<not> working' w then w\<lparr>mission' := Some msg\<rparr> else w)
       \<and> (robot_id msg \<noteq> [] \<longrightarrow>
            RemoteDelegateActionNode_mission_poll_callback w msg =
              ([], if msg_type msg = COMMAND \<and> \<not> working' w
                   then w\<lparr>can_do_it' := True, mission' := Some msg\<rparr> else w))"
  using assms
  by (simp add: mission_callback_def RemoteDelegateActionNode_mission_poll_callback_def Let_def)

theorem foreign_command_starts_nothing_witness:
  "robot_id (command_for ''W2'' ''<root/>'') \<noteq> id' worker_W1
   \<and> mission_callback counter_engine worker_W1 (command_for ''W2'' ''<root/>'') =
       ([], worker_W1\<lparr>mission' := Some (command_for ''W2'' ''<root/>'')\<rparr>)
   \<and> RemoteDelegateActionNode_mission_poll_callback worker_W1 (command_for ''W2'' ''<root/>'') =
       ([], worker_W1\<lparr>can_do_it' := True, mission' := Some (command_for ''W2'' ''<root/>'')\<rparr>)"
proof -
  have h: "robot_id (command_for ''W2'' ''<root/>'') \<noteq> id' worker_W1"
    by (simp add: command_for_def worker_W1_simp)
  have g: "msg_type (command_for ''W2'' ''<root/>'') = COMMAND \<and> \<not> working' worker_W1"
    "robot_id (command_for ''W2'' ''<root/>'') \<noteq> []"
    by (simp_all add: command_for_def worker_W1_simp)
  show ?thesis
    using h g foreign_command_starts_nothing [OF h, of counter_engine] by simp
qed

end
